theory Spec2Isabelle
  imports Main
begin

section \<open>The records client: query builder, transport chain, result transformer\<close>

text \<open>
  A shallow embedding of \<^verbatim>\<open>src/api/managed-records.js\<close>. The numbers of the program
  (page numbers, limits, offsets, ids, status codes) are the integers that a JavaScript
  number holds, and every sum, difference and product of the source is rounded as the
  language rounds it (see the subsection on numbers). An absent property of an options
  object (\<^verbatim>\<open>undefined\<close>) is \<open>None\<close>, and a default parameter value takes its place
  exactly where the source declares one.
\<close>

subsection \<open>Numbers\<close>

text \<open>
  A JavaScript number is an IEEE 754 double. The program computes on integers, so a
  finite number is modelled by the integer it holds (\<open>0\<close> and \<open>-0\<close>, which \<^verbatim>\<open>===\<close> does not
  tell apart, are both \<open>0\<close>). The result of an arithmetic operation is the exact result
  rounded to the nearest double, a tie going to the even significand: a double keeps 53
  significant bits, so \<open>ulp_exp a\<close> low bits of the magnitude \<open>a\<close> are dropped.
\<close>

function ulp_exp :: "nat \<Rightarrow> nat" where
  "ulp_exp a = (if a < 2 ^ 53 then 0 else Suc (ulp_exp (a div 2)))"
  by pat_completeness auto
termination
  by (relation "measure (\<lambda>a. a)") auto

declare ulp_exp.simps [simp del]

definition round_nat :: "nat \<Rightarrow> nat" where
  "round_nat a =
     (let e = ulp_exp a; q = a div 2 ^ e; r = a mod 2 ^ e
      in if 2 ^ e < 2 * r \<or> (2 * r = 2 ^ e \<and> odd q) then (q + 1) * 2 ^ e else q * 2 ^ e)"

definition to_double :: "int \<Rightarrow> int" where
  "to_double n = (if n < 0 then - int (round_nat (nat (- n))) else int (round_nat (nat n)))"

text \<open>
  A rounded result of magnitude \<open>2^1024\<close> or more overflows to an infinity. Among the
  operations of the program only the product of \<^verbatim>\<open>calcOffset\<close> can overflow: adding 1 to a
  double, or subtracting 1 from it, rounds to a finite double again.
\<close>

datatype js_number = Finite int | PosInfinity | NegInfinity

definition js_times :: "int \<Rightarrow> int \<Rightarrow> js_number" where
  "js_times a b =
     (let r = to_double (a * b)
      in if 2 ^ 1024 \<le> r then PosInfinity
         else if r \<le> - (2 ^ 1024) then NegInfinity
         else Finite r)"

subsection \<open>Data\<close>

text \<open>
  A record of the endpoint. \<open>isPrimary\<close> is \<open>None\<close> until \<^verbatim>\<open>filterOpenRecs\<close>
  writes the property onto the object.
\<close>

record rec =
  id_rec :: int
  color :: string
  disposition :: string
  isPrimary :: "bool option"

text \<open>The options object handed to \<^verbatim>\<open>retrieve\<close> and \<^verbatim>\<open>buildUrlOpts\<close>.\<close>

record opts =
  limit :: "int option"
  colors :: "string list option"
  page :: "int option"

text \<open>The query parameters \<^verbatim>\<open>{"color[]", offset, limit}\<close> returned by \<^verbatim>\<open>buildUrlOpts\<close>.\<close>

record query =
  q_color :: "string list"
  q_offset :: js_number
  q_limit :: int

text \<open>
  The URI object: the endpoint and the query parameters set on it (the serialisation of
  the external URI library is not modelled; the transport receives this value).
\<close>

record uri =
  base :: string
  search :: query

text \<open>The object returned by \<^verbatim>\<open>formatFinal\<close>.\<close>

record formatted =
  ids :: "int list"
  open_recs :: "rec list"
  closedPrimaryCount :: nat
  previousPage :: "int option"
  nextPage :: "int option"

text \<open>A thrown value: an error object with its \<^verbatim>\<open>name\<close> and \<^verbatim>\<open>message\<close>.\<close>

datatype js_error = JsError (err_name: string) (err_message: string)

text \<open>A settled promise.\<close>

datatype 'a promise = Resolved 'a | Rejected js_error

text \<open>
  What the parsed body of a response can be, as far as the chain distinguishes it:
  \<^verbatim>\<open>undefined\<close>, \<^verbatim>\<open>null\<close>, or an array of records.
\<close>

datatype js_records = Undefined | Null | Array "rec list"

text \<open>
  The response of the transport: \<open>json\<close> is the promise that the call
  \<^verbatim>\<open>response.json()\<close> returns.
\<close>

record response =
  status :: int
  statusText :: string
  json :: "js_records promise"

subsection \<open>Defaults\<close>

definition defaults_colors :: "string list" where
  "defaults_colors = [''red'', ''brown'', ''blue'', ''yellow'', ''green'']"

definition defaults_limit :: int where
  "defaults_limit = 10"

subsection \<open>Query builder\<close>

text \<open>\<^verbatim>\<open>calcOffset(page = 1, limit = defaults.limit)\<close>\<close>

definition calcOffset :: "int option \<Rightarrow> int option \<Rightarrow> js_number" where
  "calcOffset page' limit' =
     (let page = (case page' of None \<Rightarrow> 1 | Some p \<Rightarrow> p);
          limit = (case limit' of None \<Rightarrow> defaults_limit | Some l \<Rightarrow> l)
      in js_times (to_double (page - 1)) limit)"

text \<open>\<^verbatim>\<open>buildUrlOpts({limit = defaults.limit, colors = defaults.colors, page = 1})\<close>\<close>

definition buildUrlOpts :: "opts \<Rightarrow> query" where
  "buildUrlOpts options =
     (let limit = (case limit options of None \<Rightarrow> defaults_limit | Some l \<Rightarrow> l);
          colors = (case colors options of None \<Rightarrow> defaults_colors | Some c \<Rightarrow> c);
          page = (case page options of None \<Rightarrow> 1 | Some p \<Rightarrow> p)
      in \<lparr>q_color = colors,
          q_offset = calcOffset (Some page) (Some limit),
          q_limit = to_double (limit + 1)\<rparr>)"

definition buildUrl :: "string \<Rightarrow> opts \<Rightarrow> uri" where
  "buildUrl url options = \<lparr>base = url, search = buildUrlOpts options\<rparr>"

subsection \<open>Array operations of the language\<close>

text \<open>
  \<^verbatim>\<open>Array.prototype.indexOf\<close>: the first index holding the element (compared with
  \<^verbatim>\<open>===\<close>), or \<open>-1\<close>.
\<close>

fun indexOf :: "'a list \<Rightarrow> 'a \<Rightarrow> int" where
  "indexOf [] x = - 1"
| "indexOf (y # ys) x =
     (if y = x then 0
      else (let i = indexOf ys x in if i = - 1 then - 1 else i + 1))"

text \<open>
  \<^verbatim>\<open>Array.prototype.slice(start, end)\<close> on integers: a negative index counts from the
  end of the array, and both are clamped to the array.
\<close>

definition slice :: "'a list \<Rightarrow> int \<Rightarrow> int \<Rightarrow> 'a list" where
  "slice xs start end' =
     (let len = int (length xs);
          k = (if start < 0 then max (len + start) 0 else min start len);
          final = (if end' < 0 then max (len + end') 0 else min end' len)
      in take (nat (max (final - k) 0)) (drop (nat k) xs))"

text \<open>
  \<^verbatim>\<open>Array.prototype.reduce\<close> with a callback that may write to the element it is given:
  the callback returns the new accumulator and the element as it leaves it, and the
  result carries the accumulator and the elements of the array after the pass.
\<close>

fun reduce :: "('b \<Rightarrow> 'a \<Rightarrow> 'b \<times> 'a) \<Rightarrow> 'a list \<Rightarrow> 'b \<Rightarrow> 'b \<times> 'a list" where
  "reduce f [] acc = (acc, [])"
| "reduce f (x # xs) acc =
     (case f acc x of (acc', x') \<Rightarrow>
        (case reduce f xs acc' of (r, xs') \<Rightarrow> (r, x' # xs')))"

subsection \<open>Result transformer\<close>

definition isPrimeColor :: "string \<Rightarrow> bool" where
  "isPrimeColor color' = (indexOf [''red'', ''blue'', ''yellow''] color' \<noteq> - 1)"

definition getIds :: "rec list \<Rightarrow> int list" where
  "getIds records = map (\<lambda>record. id_rec record) records"

text \<open>
  \<^verbatim>\<open>filterOpenRecs\<close>: the first component is the returned array \<^verbatim>\<open>open\<close>, the second
  the records of the argument after the pass (an open record is the same object in both,
  so the write of \<^verbatim>\<open>isPrimary\<close> shows in both).
\<close>

definition filterOpenRecs :: "rec list \<Rightarrow> rec list \<times> rec list" where
  "filterOpenRecs records =
     reduce (\<lambda>open' record.
        if disposition record = ''open''
        then (let record' = record\<lparr>isPrimary := Some (isPrimeColor (color record))\<rparr>
              in (open' @ [record'], record'))
        else (open', record)) records []"

definition getClosedPrime :: "rec list \<Rightarrow> rec list" where
  "getClosedPrime records =
     filter (\<lambda>record. disposition record = ''closed'' \<and> isPrimeColor (color record)) records"

text \<open>
  \<^verbatim>\<open>formatFinal({curPage, limit = defaults.limit, records = []})\<close>. Reading
  \<^verbatim>\<open>records.length\<close> of \<^verbatim>\<open>null\<close> throws a \<^verbatim>\<open>TypeError\<close>; its message is the
  engine's, here the one of V8 (Node.js, Chrome). The properties of the returned object are evaluated in the order of the
  source: the ids, then the open records (which writes \<^verbatim>\<open>isPrimary\<close>), then the
  closed primary records.
\<close>

definition formatFinal :: "int \<Rightarrow> int option \<Rightarrow> js_records \<Rightarrow> js_error + formatted" where
  "formatFinal curPage limit' records' =
     (let limit = (case limit' of None \<Rightarrow> defaults_limit | Some l \<Rightarrow> l);
          records = (case records' of Undefined \<Rightarrow> Array [] | _ \<Rightarrow> records');
          previousPage = (if curPage = 1 then None else Some (to_double (curPage - 1)))
      in case records of
           Array recs \<Rightarrow>
             (let nextPage = (if int (length recs) \<le> limit then None
                              else Some (to_double (curPage + 1)));
                  finalRecs = slice recs 0 limit;
                  ids = getIds finalRecs;
                  (open', finalRecs') = filterOpenRecs finalRecs;
                  closed = length (getClosedPrime finalRecs')
              in Inr \<lparr>ids = ids, open_recs = open', closedPrimaryCount = closed,
                      previousPage = previousPage, nextPage = nextPage\<rparr>)
         | _ \<Rightarrow> Inl (JsError ''TypeError''
                      ''Cannot read properties of null (reading 'length')''))"

subsection \<open>Transport chain and orchestration\<close>

text \<open>\<^verbatim>\<open>promise.then(f)\<close> on a settled promise, for a callback that returns a promise.\<close>

definition andThen :: "'a promise \<Rightarrow> ('a \<Rightarrow> 'b promise) \<Rightarrow> 'b promise" where
  "andThen p f = (case p of Resolved v \<Rightarrow> f v | Rejected e \<Rightarrow> Rejected e)"

text \<open>\<^verbatim>\<open>Error.prototype.toString\<close>, as the template literal of the diagnostic calls it.\<close>

definition toString :: "js_error \<Rightarrow> string" where
  "toString e =
     (if err_name e = [] then err_message e
      else if err_message e = [] then err_name e
      else err_name e @ '': '' @ err_message e)"

definition verifyStatus :: "response \<Rightarrow> js_records promise" where
  "verifyStatus response' =
     (if status response' \<ge> 200 \<and> status response' < 300
      then json response'
      else Rejected (JsError ''Error'' (statusText response')))"

text \<open>
  \<^verbatim>\<open>getRecords\<close>: the transport \<^verbatim>\<open>fetch\<close> is a parameter; \<open>fetch url\<close> is the settled
  promise it returns for the request.
\<close>

definition getRecords :: "(uri \<Rightarrow> response promise) \<Rightarrow> uri \<Rightarrow> js_records promise" where
  "getRecords fetch url =
     (case andThen (andThen (fetch url) verifyStatus)
             (\<lambda>records. Resolved (case records of Undefined \<Rightarrow> Array [] | _ \<Rightarrow> records)) of
        Resolved records \<Rightarrow> Resolved records
      | Rejected error \<Rightarrow> Rejected error)"

definition retrievePromise :: "int \<Rightarrow> int option \<Rightarrow> js_records \<Rightarrow> formatted promise" where
  "retrievePromise curPage limit' records =
     (case formatFinal curPage limit' records of
        Inr result \<Rightarrow> Resolved result
      | Inl error \<Rightarrow> Rejected error)"

text \<open>
  \<^verbatim>\<open>retrieve(options = {})\<close>, with the global \<^verbatim>\<open>window.path\<close> and the transport as
  parameters. The result is the settled promise that is returned (\<open>Resolved None\<close> is a
  promise resolved with \<^verbatim>\<open>undefined\<close>) and the lines written by \<^verbatim>\<open>console.log\<close>.
\<close>

definition retrieve ::
  "string \<Rightarrow> (uri \<Rightarrow> response promise) \<Rightarrow> opts option \<Rightarrow> formatted option promise \<times> string list" where
  "retrieve path fetch options' =
     (let options = (case options' of
                       None \<Rightarrow> \<lparr>limit = None, colors = None, page = None\<rparr>
                     | Some opt \<Rightarrow> opt);
          url = buildUrl path options;
          curPage = (case page options of
                       None \<Rightarrow> 1
                     | Some p \<Rightarrow> if p = 0 then 1 else p)
      in case andThen (getRecords fetch url)
                (\<lambda>records. retrievePromise curPage (Some defaults_limit)
                   (case records of Undefined \<Rightarrow> Array [] | _ \<Rightarrow> records)) of
           Resolved result \<Rightarrow> (Resolved (Some result), [])
         | Rejected error \<Rightarrow>
             (Resolved None, [''An error occurred during the request. '' @ toString error]))"

subsection \<open>Sample records\<close>

text \<open>Records used to evaluate the functions on concrete arrays.\<close>

abbreviation rec1 :: rec where
  "rec1 \<equiv> \<lparr>id_rec = 1, color = ''red'', disposition = ''open'', isPrimary = None\<rparr>"

abbreviation rec2 :: rec where
  "rec2 \<equiv> \<lparr>id_rec = 2, color = ''green'', disposition = ''closed'', isPrimary = None\<rparr>"

abbreviation rec3 :: rec where
  "rec3 \<equiv> \<lparr>id_rec = 3, color = ''blue'', disposition = ''closed'', isPrimary = None\<rparr>"

abbreviation rec4 :: rec where
  "rec4 \<equiv> \<lparr>id_rec = 4, color = ''Red'', disposition = ''open'', isPrimary = None\<rparr>"

section \<open>Properties\<close>

subsection \<open>Auxiliary facts\<close>

lemma ulp_exp_small: "a < 2 ^ 53 \<Longrightarrow> ulp_exp a = 0"
  by (simp add: ulp_exp.simps)

lemma ulp_exp_large: "\<not> a < 2 ^ 53 \<Longrightarrow> ulp_exp a = Suc (ulp_exp (a div 2))"
  by (subst ulp_exp.simps) simp

lemma round_nat_exact: "a \<le> 2 ^ 53 \<Longrightarrow> round_nat a = a"
proof (cases "a < 2 ^ 53")
  case True
  then show ?thesis by (simp add: round_nat_def ulp_exp_small)
next
  case False
  assume "a \<le> 2 ^ 53"
  with False have a: "a = 2 ^ 53" by simp
  have "ulp_exp (2 ^ 53) = Suc 0"
    by (simp add: ulp_exp_large ulp_exp_small)
  then show ?thesis
    unfolding a by (simp add: round_nat_def)
qed

lemma to_double_exact: "\<bar>n\<bar> \<le> 2 ^ 53 \<Longrightarrow> to_double n = n"
proof -
  assume b: "\<bar>n\<bar> \<le> 2 ^ 53"
  show ?thesis
  proof (cases "n < 0")
    case True
    with b have "nat (- n) \<le> 2 ^ 53" by (simp add: nat_le_iff)
    then have "round_nat (nat (- n)) = nat (- n)" by (rule round_nat_exact)
    with True show ?thesis by (simp add: to_double_def)
  next
    case False
    with b have "nat n \<le> 2 ^ 53" by (simp add: nat_le_iff)
    then have "round_nat (nat n) = nat n" by (rule round_nat_exact)
    with False show ?thesis by (simp add: to_double_def)
  qed
qed

lemma js_times_exact: "\<bar>a * b\<bar> \<le> 2 ^ 53 \<Longrightarrow> js_times a b = Finite (a * b)"
proof -
  assume b: "\<bar>a * b\<bar> \<le> 2 ^ 53"
  have "(2::int) ^ 53 < 2 ^ 1024" by simp
  with b have "a * b < 2 ^ 1024" "- (2 ^ 1024) < a * b" by linarith+
  then show ?thesis
    using to_double_exact [OF b] by (simp add: js_times_def)
qed

lemma calcOffset_exact:
  "\<bar>p - 1\<bar> \<le> 2 ^ 53 \<Longrightarrow> \<bar>(p - 1) * l\<bar> \<le> 2 ^ 53 \<Longrightarrow>
     calcOffset (Some p) (Some l) = Finite ((p - 1) * l)"
  by (simp add: calcOffset_def to_double_exact js_times_exact)

lemma to_double_above_2_53: "to_double 9007199254740993 = 9007199254740992"
  by (simp add: to_double_def round_nat_def ulp_exp_large ulp_exp_small)

lemma indexOf_ge: "- 1 \<le> indexOf xs x"
  by (induction xs) (auto simp: Let_def)

lemma indexOf_mem: "indexOf xs x \<noteq> - 1 \<longleftrightarrow> x \<in> set xs"
proof (induction xs)
  case Nil
  show ?case by simp
next
  case (Cons y ys)
  have "- 1 \<le> indexOf ys x" by (rule indexOf_ge)
  then have "indexOf ys x + 1 \<noteq> - 1" by simp
  with Cons show ?case by (auto simp: Let_def)
qed

lemma isPrimeColor_iff: "isPrimeColor c \<longleftrightarrow> c \<in> {''red'', ''blue'', ''yellow''}"
  unfolding isPrimeColor_def indexOf_mem by simp

lemma slice_nonneg: "0 \<le> l \<Longrightarrow> slice xs 0 l = take (nat l) xs"
  by (simp add: slice_def Let_def min_def)

lemma slice_neg: "l < 0 \<Longrightarrow> slice xs 0 l = take (length xs - nat (- l)) xs"
  by (auto simp add: slice_def Let_def max_def intro: arg_cong2[where f=take])

lemma reduce_open:
  "reduce (\<lambda>open' record.
        if disposition record = ''open''
        then (let record' = record\<lparr>isPrimary := Some (isPrimeColor (color record))\<rparr>
              in (open' @ [record'], record'))
        else (open', record)) rs acc
   = (acc @ map (\<lambda>r. r\<lparr>isPrimary := Some (isPrimeColor (color r))\<rparr>)
               (filter (\<lambda>r. disposition r = ''open'') rs),
      map (\<lambda>r. if disposition r = ''open''
                then r\<lparr>isPrimary := Some (isPrimeColor (color r))\<rparr> else r) rs)"
  by (induction rs arbitrary: acc) (simp_all add: Let_def)

lemma filterOpenRecs_eq:
  "filterOpenRecs rs =
     (map (\<lambda>r. r\<lparr>isPrimary := Some (isPrimeColor (color r))\<rparr>)
               (filter (\<lambda>r. disposition r = ''open'') rs),
      map (\<lambda>r. if disposition r = ''open''
                then r\<lparr>isPrimary := Some (isPrimeColor (color r))\<rparr> else r) rs)"
  unfolding filterOpenRecs_def reduce_open by simp

lemma getClosedPrime_after:
  "length (getClosedPrime (map (\<lambda>r. if disposition r = ''open''
                then r\<lparr>isPrimary := Some (isPrimeColor (color r))\<rparr> else r) rs))
     = length (getClosedPrime rs)"
  unfolding getClosedPrime_def
  by (induction rs) simp_all

lemma formatFinal_Array:
  "formatFinal c lim (Array rs) =
     Inr \<lparr>ids = map id_rec (slice rs 0 (case lim of None \<Rightarrow> 10 | Some l \<Rightarrow> l)),
          open_recs = map (\<lambda>r. r\<lparr>isPrimary := Some (isPrimeColor (color r))\<rparr>)
               (filter (\<lambda>r. disposition r = ''open'') (slice rs 0 (case lim of None \<Rightarrow> 10 | Some l \<Rightarrow> l))),
          closedPrimaryCount = length (getClosedPrime (slice rs 0 (case lim of None \<Rightarrow> 10 | Some l \<Rightarrow> l))),
          previousPage = (if c = 1 then None else Some (to_double (c - 1))),
          nextPage = (if int (length rs) \<le> (case lim of None \<Rightarrow> 10 | Some l \<Rightarrow> l) then None
                      else Some (to_double (c + 1)))\<rparr>"
  by (cases lim)
     (simp_all add: formatFinal_def Let_def defaults_limit_def getIds_def filterOpenRecs_eq
        getClosedPrime_after)

lemma take_min_length: "take (nat (min (int (length xs)) l)) xs = take (nat l) xs"
  by (simp add: min_def)

lemma filter_take_card:
  "length (filter P (take n xs)) = card {i. i < length xs \<and> i < n \<and> P (xs ! i)}"
proof -
  have "length (filter P (take n xs)) = card {i. i < length (take n xs) \<and> P (take n xs ! i)}"
    by (rule length_filter_conv_card)
  also have "{i. i < length (take n xs) \<and> P (take n xs ! i)} = {i. i < length xs \<and> i < n \<and> P (xs ! i)}"
    by auto
  finally show ?thesis .
qed

lemma formatFinal_Undefined: "formatFinal c lim Undefined = formatFinal c lim (Array [])"
  by (simp add: formatFinal_def)

lemma formatFinal_Null:
  "formatFinal c lim Null =
     Inl (JsError ''TypeError'' ''Cannot read properties of null (reading 'length')'')"
  by (simp add: formatFinal_def Let_def)

lemma formatFinal_default:
  "formatFinal c lim (case body of Undefined \<Rightarrow> Array [] | _ \<Rightarrow> body) = formatFinal c lim body"
  by (cases body) (simp_all add: formatFinal_Undefined)

lemma getRecords_eq:
  "getRecords fetch url =
     (case fetch url of
        Rejected e \<Rightarrow> Rejected e
      | Resolved resp \<Rightarrow>
          (if 200 \<le> status resp \<and> status resp < 300
           then (case json resp of
                   Rejected e \<Rightarrow> Rejected e
                 | Resolved body \<Rightarrow> Resolved (case body of Undefined \<Rightarrow> Array [] | _ \<Rightarrow> body))
           else Rejected (JsError ''Error'' (statusText resp))))"
  by (simp add: getRecords_def andThen_def verifyStatus_def split: promise.split)

lemma retrieve_eq:
  "retrieve path fetch options' =
     (case andThen (getRecords fetch
              (buildUrl path (case options' of
                       None \<Rightarrow> \<lparr>limit = None, colors = None, page = None\<rparr>
                     | Some opt \<Rightarrow> opt)))
            (\<lambda>records. retrievePromise
               (case page (case options' of
                       None \<Rightarrow> \<lparr>limit = None, colors = None, page = None\<rparr>
                     | Some opt \<Rightarrow> opt) of None \<Rightarrow> 1 | Some p \<Rightarrow> if p = 0 then 1 else p)
               (Some 10) records) of
        Resolved result \<Rightarrow> (Resolved (Some result), [])
      | Rejected error \<Rightarrow>
          (Resolved None, [''An error occurred during the request. '' @ toString error]))"
  unfolding retrieve_def Let_def defaults_limit_def andThen_def retrievePromise_def
  by (simp add: formatFinal_default split: promise.split)

subsection \<open>Query builder\<close>

text \<open>
  Claim C3, as the source has it. The product is rounded to a double: for the page
  \<open>2^53\<close> and the limit 3, \<^verbatim>\<open>calcOffset\<close> returns \<open>27021597764222972\<close> and not
  \<open>(page - 1) * limit = 27021597764222973\<close>.
\<close>

theorem offset_rounded_counterexample:
  "calcOffset (Some 9007199254740992) (Some 3) = Finite 27021597764222972
   \<and> calcOffset (Some 9007199254740992) (Some 3) \<noteq> Finite ((9007199254740992 - 1) * 3)
   \<and> q_offset (buildUrlOpts \<lparr>limit = Some 3, colors = None, page = Some 9007199254740992\<rparr>)
       = Finite 27021597764222972"
  by (simp add: calcOffset_def buildUrlOpts_def js_times_def to_double_def round_nat_def
      ulp_exp_large ulp_exp_small)

text \<open>
  Claim C3, amended. For every page \<open>\<ge> 1\<close> and every limit such that \<open>page - 1\<close> and
  \<open>(page - 1) * limit\<close> have magnitude at most \<open>2^53\<close> (where the arithmetic of the language
  is exact), \<^verbatim>\<open>calcOffset\<close> returns \<open>(page - 1) * limit\<close>, and that is the \<^verbatim>\<open>offset\<close>
  query parameter built by \<^verbatim>\<open>buildUrlOpts\<close> (with the default limit 10 when the options
  carry none).
\<close>

theorem offset_of_page:
  "1 \<le> p \<Longrightarrow> \<bar>p - 1\<bar> \<le> 2 ^ 53 \<Longrightarrow> \<bar>(p - 1) * l\<bar> \<le> 2 ^ 53 \<Longrightarrow>
     calcOffset (Some p) (Some l) = Finite ((p - 1) * l)
   \<and> q_offset (buildUrlOpts \<lparr>limit = Some l, colors = cs, page = Some p\<rparr>)
       = Finite ((p - 1) * l)
   \<and> (\<bar>(p - 1) * 10\<bar> \<le> 2 ^ 53 \<longrightarrow>
        q_offset (buildUrlOpts \<lparr>limit = None, colors = cs, page = Some p\<rparr>)
          = Finite ((p - 1) * 10))"
  by (simp add: buildUrlOpts_def defaults_limit_def calcOffset_exact)

theorem offset_of_page_witness:
  "(1::int) \<le> 3 \<and> \<bar>3 - 1 :: int\<bar> \<le> 2 ^ 53 \<and> \<bar>(3 - 1) * 10 :: int\<bar> \<le> 2 ^ 53
   \<and> calcOffset (Some 3) (Some 10) = Finite 20
   \<and> q_offset (buildUrlOpts \<lparr>limit = Some 10, colors = None, page = Some 3\<rparr>) = Finite 20
   \<and> q_offset (buildUrlOpts \<lparr>limit = None, colors = None, page = Some 3\<rparr>) = Finite 20"
  using offset_of_page [of 3 10 None] by simp

text \<open>
  Claim C4, as the source has it. The sum is rounded to a double: for the limit \<open>2^53\<close>
  the \<^verbatim>\<open>limit\<close> query parameter is \<open>2^53\<close> itself and not \<open>limit + 1\<close>.
\<close>

theorem limit_param_rounded_counterexample:
  "q_limit (buildUrlOpts \<lparr>limit = Some 9007199254740992, colors = None, page = None\<rparr>)
     = 9007199254740992
   \<and> q_limit (buildUrlOpts \<lparr>limit = Some 9007199254740992, colors = None, page = None\<rparr>)
     \<noteq> 9007199254740992 + 1"
  by (simp add: buildUrlOpts_def to_double_above_2_53)

text \<open>
  Claim C4, amended. For every options object, whatever its page and colors, whose
  limit (10 when the options carry none) is such that \<open>limit + 1\<close> has magnitude at most
  \<open>2^53\<close>, the \<^verbatim>\<open>limit\<close> query parameter is that limit plus one.
\<close>

theorem limit_param_overfetch:
  "(limit options = None \<longrightarrow>
      q_limit (buildUrlOpts options) = 10 + 1
    \<and> q_limit (search (buildUrl path options)) = 10 + 1)
   \<and> (limit options = Some l \<and> \<bar>l + 1\<bar> \<le> 2 ^ 53 \<longrightarrow>
      q_limit (buildUrlOpts options) = l + 1
    \<and> q_limit (search (buildUrl path options)) = l + 1)"
  by (simp add: buildUrl_def buildUrlOpts_def defaults_limit_def to_double_exact)

theorem limit_param_overfetch_witness:
  "q_limit (buildUrlOpts \<lparr>limit = None, colors = None, page = Some 7\<rparr>) = 11
   \<and> \<bar>25 + 1 :: int\<bar> \<le> 2 ^ 53
   \<and> q_limit (buildUrlOpts \<lparr>limit = Some 25, colors = Some [''red''], page = None\<rparr>) = 26"
  using limit_param_overfetch [where options = "\<lparr>limit = None, colors = None, page = Some 7\<rparr>"]
        limit_param_overfetch [where l = 25
          and options = "\<lparr>limit = Some 25, colors = Some [''red''], page = None\<rparr>"]
  by simp

text \<open>
  Claim C9, as the source has it. The claim that a page below 1 gives the offset 0 fails:
  \<^verbatim>\<open>calcOffset(0, 10)\<close> is \<open>-10\<close>.
\<close>

theorem offset_page_zero_counterexample:
  "calcOffset (Some 0) (Some 10) = Finite (- 10)
   \<and> calcOffset (Some 0) (Some 10) \<noteq> Finite 0
   \<and> q_offset (buildUrlOpts \<lparr>limit = None, colors = None, page = Some 0\<rparr>) = Finite (- 10)"
  by (simp add: buildUrlOpts_def defaults_limit_def calcOffset_exact)

text \<open>
  Claim C9, amended. For every page below 1 and every positive limit such that
  \<open>(page - 1) * limit\<close> has magnitude at most \<open>2^53\<close> (where the arithmetic of the language is
  exact), the offset is \<open>(page - 1) * limit\<close>, passed through unchanged: a negative number,
  at most \<open>- limit\<close>.
\<close>

theorem offset_page_below_one:
  "p < 1 \<Longrightarrow> 0 < l \<Longrightarrow> \<bar>(p - 1) * l\<bar> \<le> 2 ^ 53 \<Longrightarrow>
     calcOffset (Some p) (Some l) = Finite ((p - 1) * l)
   \<and> (p - 1) * l \<le> - l
   \<and> (p - 1) * l < 0
   \<and> q_offset (buildUrlOpts \<lparr>limit = Some l, colors = cs, page = Some p\<rparr>)
       = calcOffset (Some p) (Some l)"
proof -
  assume p: "p < 1" and l: "0 < l" and b: "\<bar>(p - 1) * l\<bar> \<le> 2 ^ 53"
  from l have "\<bar>p - 1\<bar> * 1 \<le> \<bar>p - 1\<bar> * \<bar>l\<bar>"
    by (intro mult_left_mono) simp_all
  then have "\<bar>p - 1\<bar> \<le> \<bar>(p - 1) * l\<bar>"
    by (simp add: abs_mult)
  with b have b1: "\<bar>p - 1\<bar> \<le> 2 ^ 53" by simp
  have eq: "calcOffset (Some p) (Some l) = Finite ((p - 1) * l)"
    using b1 b by (rule calcOffset_exact)
  from p have "p - 1 \<le> - 1" by simp
  with l have "(p - 1) * l \<le> (- 1) * l"
    by (intro mult_right_mono) simp_all
  then have le: "(p - 1) * l \<le> - l" by simp
  with l have neg: "(p - 1) * l < 0" by simp
  show ?thesis
    using eq le neg by (simp add: buildUrlOpts_def)
qed

theorem offset_page_below_one_witness:
  "(0::int) < 1 \<and> (0::int) < 10 \<and> \<bar>(0 - 1) * 10 :: int\<bar> \<le> 2 ^ 53
   \<and> calcOffset (Some 0) (Some 10) = Finite ((0 - 1) * 10)
   \<and> (0 - 1) * 10 \<le> (- 10 :: int)
   \<and> q_offset (buildUrlOpts \<lparr>limit = Some 10, colors = None, page = Some 0\<rparr>)
       = calcOffset (Some 0) (Some 10)"
  using offset_page_below_one [of 0 10 None] by simp

subsection \<open>Result transformer\<close>

text \<open>
  Claim C1, as the source has it. The sum is rounded to a double: for the current page
  \<open>2^53\<close> and an array longer than the limit, \<open>nextPage\<close> is \<open>2^53\<close> itself and not
  \<open>curPage + 1\<close>.
\<close>

theorem nextPage_rounded_counterexample:
  "nextPage (projr (formatFinal 9007199254740992 (Some 0) (Array [rec1]))) = Some 9007199254740992
   \<and> nextPage (projr (formatFinal 9007199254740992 (Some 0) (Array [rec1])))
       \<noteq> Some (9007199254740992 + 1)"
  by (simp add: formatFinal_Array to_double_above_2_53)

text \<open>
  Claim C1, amended. For every array of records, every current page and every limit:
  \<^verbatim>\<open>formatFinal\<close> returns an object whose \<open>nextPage\<close> is null when the array has at most
  \<open>limit\<close> records, and is \<open>curPage + 1\<close> when the array has \<open>limit + 1\<close> records (more
  generally, more than \<open>limit\<close>) and \<open>curPage + 1\<close> has magnitude at most \<open>2^53\<close>.
\<close>

theorem nextPage_overflow:
  "(case formatFinal c (Some l) (Array rs) of
      Inl e \<Rightarrow> False
    | Inr out \<Rightarrow>
        (int (length rs) = l + 1 \<and> \<bar>c + 1\<bar> \<le> 2 ^ 53 \<longrightarrow> nextPage out = Some (c + 1))
      \<and> (int (length rs) > l \<and> \<bar>c + 1\<bar> \<le> 2 ^ 53 \<longrightarrow> nextPage out = Some (c + 1))
      \<and> (int (length rs) \<le> l \<longrightarrow> nextPage out = None))"
  by (simp add: formatFinal_Array to_double_exact)

theorem nextPage_overflow_witness:
  "int (length [rec1, rec2, rec3]) = 2 + 1 \<and> \<bar>1 + 1 :: int\<bar> \<le> 2 ^ 53
   \<and> nextPage (projr (formatFinal 1 (Some 2) (Array [rec1, rec2, rec3]))) = Some 2
   \<and> int (length [rec1]) \<le> 2
   \<and> nextPage (projr (formatFinal 1 (Some 2) (Array [rec1]))) = None"
  using nextPage_overflow [where c = 1 and l = 2 and rs = "[rec1, rec2, rec3]"]
        nextPage_overflow [where c = 1 and l = 2 and rs = "[rec1]"]
  by (simp split: sum.splits)

text \<open>
  Claim C2, as the source has it. The difference is rounded to a double: for the current
  page \<open>2^53 + 2\<close>, \<open>previousPage\<close> is \<open>2^53\<close> and not \<open>curPage - 1\<close>.
\<close>

theorem previousPage_rounded_counterexample:
  "previousPage (projr (formatFinal 9007199254740994 None (Array [rec1]))) = Some 9007199254740992
   \<and> previousPage (projr (formatFinal 9007199254740994 None (Array [rec1])))
       \<noteq> Some (9007199254740994 - 1)"
  by (simp add: formatFinal_Array to_double_above_2_53)

text \<open>
  Claim C2, amended. For every current page, \<open>previousPage\<close> of the object returned by
  \<^verbatim>\<open>formatFinal\<close> is null if and only if the current page is 1; otherwise it is
  \<open>curPage - 1\<close>, provided \<open>curPage - 1\<close> has magnitude at most \<open>2^53\<close>.
\<close>

theorem previousPage_first_page:
  "(case formatFinal c lim (Array rs) of
      Inl e \<Rightarrow> False
    | Inr out \<Rightarrow>
        (previousPage out = None \<longleftrightarrow> c = 1)
      \<and> (c \<noteq> 1 \<and> \<bar>c - 1\<bar> \<le> 2 ^ 53 \<longrightarrow> previousPage out = Some (c - 1)))"
  by (simp add: formatFinal_Array to_double_exact)

theorem previousPage_first_page_witness:
  "(3::int) \<noteq> 1 \<and> \<bar>3 - 1 :: int\<bar> \<le> 2 ^ 53
   \<and> previousPage (projr (formatFinal 3 None (Array [rec1]))) = Some 2
   \<and> previousPage (projr (formatFinal 1 None (Array [rec1]))) = None"
  using previousPage_first_page [where c = 3 and lim = None and rs = "[rec1]"]
        previousPage_first_page [where c = 1 and lim = None and rs = "[rec1]"]
  by (simp split: sum.splits)

text \<open>
  Claim C5, as the source has it. With a negative limit \<^verbatim>\<open>records.slice(0, limit)\<close>
  drops records from the end of the array instead: for two records and the limit \<open>-1\<close>
  the ids are those of the first record, so their number is 1 and not
  \<open>min(records.length, limit) = -1\<close>.
\<close>

theorem ids_negative_limit_counterexample:
  "ids (projr (formatFinal 1 (Some (- 1)) (Array [rec1, rec2]))) = [1]
   \<and> int (length (ids (projr (formatFinal 1 (Some (- 1)) (Array [rec1, rec2])))))
       \<noteq> min (int (length [rec1, rec2])) (- 1)"
  by (simp add: formatFinal_Array slice_def)

text \<open>
  Claim C5, amended. For every array of records and every limit \<open>\<ge> 0\<close>, \<open>ids\<close> is the
  sequence of the ids of the first \<open>min(records.length, limit)\<close> records, in their order;
  in particular it has that length.
\<close>

theorem ids_of_final_slice:
  "0 \<le> l \<Longrightarrow>
     (case formatFinal c (Some l) (Array rs) of
        Inl e \<Rightarrow> False
      | Inr out \<Rightarrow>
          ids out = map id_rec (take (nat (min (int (length rs)) l)) rs)
        \<and> int (length (ids out)) = min (int (length rs)) l)"
  by (auto simp add: formatFinal_Array slice_nonneg min_def)

theorem ids_of_final_slice_witness:
  "(0::int) \<le> 2
   \<and> ids (projr (formatFinal 1 (Some 2) (Array [rec1, rec2, rec3]))) = [1, 2]
   \<and> int (length (ids (projr (formatFinal 1 (Some 2) (Array [rec1, rec2, rec3]))))) = 2"
  using ids_of_final_slice [where c = 1 and l = 2 and rs = "[rec1, rec2, rec3]"]
  by (simp split: sum.splits)


text \<open>
  Claim C6. For every array of records, the \<open>open\<close> list of the object returned by
  \<^verbatim>\<open>formatFinal\<close> holds exactly the records of the final slice
  \<^verbatim>\<open>records.slice(0, limit)\<close> (the first \<open>limit\<close> records, for a limit \<open>\<ge> 0\<close>) whose
  disposition is \<open>open\<close>, in their original order; each of them has disposition \<open>open\<close>
  and carries \<open>isPrimary\<close>, which is true if and only if its color is exactly one of
  \<open>red\<close>, \<open>blue\<close>, \<open>yellow\<close>.
\<close>

theorem open_records_annotated:
  "(case formatFinal c (Some l) (Array rs) of
      Inl e \<Rightarrow> False
    | Inr out \<Rightarrow>
        (\<forall>r \<in> set (open_recs out).
            disposition r = ''open''
          \<and> (isPrimary r = Some True \<longleftrightarrow> color r \<in> {''red'', ''blue'', ''yellow''})
          \<and> (isPrimary r = Some False \<longleftrightarrow> color r \<notin> {''red'', ''blue'', ''yellow''}))
      \<and> open_recs out =
          map (\<lambda>r. r\<lparr>isPrimary := Some (color r \<in> {''red'', ''blue'', ''yellow''})\<rparr>)
            (filter (\<lambda>r. disposition r = ''open'') (slice rs 0 l))
      \<and> (0 \<le> l \<longrightarrow> slice rs 0 l = take (nat l) rs))"
  by (auto simp add: formatFinal_Array isPrimeColor_iff slice_nonneg)

theorem open_records_annotated_witness:
  "(0::int) \<le> 3
   \<and> slice [rec2, rec1, rec4, rec1] 0 3 = [rec2, rec1, rec4]
   \<and> open_recs (projr (formatFinal 1 (Some 3) (Array [rec2, rec1, rec4, rec1])))
       = [rec1\<lparr>isPrimary := Some True\<rparr>, rec4\<lparr>isPrimary := Some False\<rparr>]
   \<and> map disposition (open_recs (projr (formatFinal 1 (Some 3) (Array [rec2, rec1, rec4, rec1]))))
       = [''open'', ''open'']"
proof -
  have sl: "slice [rec2, rec1, rec4, rec1] 0 3 = [rec2, rec1, rec4]"
    by (simp add: slice_def)
  have ev: "formatFinal 1 (Some 3) (Array [rec2, rec1, rec4, rec1])
      = Inr \<lparr>ids = [2, 1, 4],
             open_recs = [rec1\<lparr>isPrimary := Some True\<rparr>, rec4\<lparr>isPrimary := Some False\<rparr>],
             closedPrimaryCount = 0, previousPage = None, nextPage = Some 2\<rparr>"
    unfolding formatFinal_Array option.case sl
    by (simp add: getClosedPrime_def isPrimeColor_iff to_double_exact)
  show ?thesis
    using open_records_annotated [where c = 1 and l = 3 and rs = "[rec2, rec1, rec4, rec1]"]
    unfolding ev sl by simp
qed

text \<open>
  Claim C7, as the source has it. With a negative limit the final slice is not empty: for
  two closed blue records and the limit \<open>-1\<close>, \<open>closedPrimaryCount\<close> is 1, although no
  record is among the first \<open>min(records.length, limit) = -1\<close> records.
\<close>

theorem closed_negative_limit_counterexample:
  "closedPrimaryCount (projr (formatFinal 1 (Some (- 1)) (Array [rec3, rec3]))) = 1
   \<and> take (nat (min (int (length [rec3, rec3])) (- 1))) [rec3, rec3] = []
   \<and> closedPrimaryCount (projr (formatFinal 1 (Some (- 1)) (Array [rec3, rec3])))
       \<noteq> length (getClosedPrime
            (take (nat (min (int (length [rec3, rec3])) (- 1))) [rec3, rec3]))"
  by (simp add: formatFinal_Array slice_def getClosedPrime_def isPrimeColor_iff)

text \<open>
  Claim C7, amended. For every array of records and every limit \<open>\<ge> 0\<close>,
  \<open>closedPrimaryCount\<close> is the number of records among the first
  \<open>min(records.length, limit)\<close> records whose disposition is \<open>closed\<close> and whose color is
  one of \<open>red\<close>, \<open>blue\<close>, \<open>yellow\<close>: the number of positions below both the length and
  the limit that hold such a record, so a record at or beyond the limit is never counted.
\<close>

theorem closedPrimaryCount_of_final_slice:
  "0 \<le> l \<Longrightarrow>
     (case formatFinal c (Some l) (Array rs) of
        Inl e \<Rightarrow> False
      | Inr out \<Rightarrow>
          closedPrimaryCount out =
            length (filter (\<lambda>r. disposition r = ''closed'' \<and> color r \<in> {''red'', ''blue'', ''yellow''})
              (take (nat (min (int (length rs)) l)) rs))
        \<and> closedPrimaryCount out =
            card {i. i < length rs \<and> int i < l
                   \<and> disposition (rs ! i) = ''closed''
                   \<and> color (rs ! i) \<in> {''red'', ''blue'', ''yellow''}})"
proof -
  assume l: "0 \<le> l"
  let ?P = "\<lambda>r. disposition r = ''closed'' \<and> color r \<in> {''red'', ''blue'', ''yellow''}"
  have fin: "formatFinal c (Some l) (Array rs)
      = Inr \<lparr>ids = map id_rec (take (nat l) rs),
             open_recs = map (\<lambda>r. r\<lparr>isPrimary := Some (isPrimeColor (color r))\<rparr>)
               (filter (\<lambda>r. disposition r = ''open'') (take (nat l) rs)),
             closedPrimaryCount = length (filter ?P (take (nat l) rs)),
             previousPage = (if c = 1 then None else Some (to_double (c - 1))),
             nextPage = (if int (length rs) \<le> l then None else Some (to_double (c + 1)))\<rparr>"
    using l by (simp add: formatFinal_Array slice_nonneg getClosedPrime_def isPrimeColor_iff)
  have idx: "\<And>i. (i < nat l) = (int i < l)"
    using l by auto
  have "length (filter ?P (take (nat l) rs))
      = card {i. i < length rs \<and> i < nat l \<and> ?P (rs ! i)}"
    by (rule filter_take_card)
  then have crd: "length (filter ?P (take (nat l) rs))
      = card {i. i < length rs \<and> int i < l \<and> ?P (rs ! i)}"
    by (simp only: idx)
  show ?thesis
    unfolding fin take_min_length using crd by simp
qed

theorem closedPrimaryCount_of_final_slice_witness:
  "(0::int) \<le> 2
   \<and> closedPrimaryCount (projr (formatFinal 1 (Some 2) (Array [rec1, rec3, rec3]))) = 1
   \<and> card {i. i < length [rec1, rec3, rec3] \<and> int i < 2
             \<and> disposition ([rec1, rec3, rec3] ! i) = ''closed''
             \<and> color ([rec1, rec3, rec3] ! i) \<in> {''red'', ''blue'', ''yellow''}} = 1"
proof -
  have sl: "slice [rec1, rec3, rec3] 0 2 = [rec1, rec3]"
    by (simp add: slice_def)
  have ev: "formatFinal 1 (Some 2) (Array [rec1, rec3, rec3])
      = Inr \<lparr>ids = [1, 3], open_recs = [rec1\<lparr>isPrimary := Some True\<rparr>],
             closedPrimaryCount = 1, previousPage = None, nextPage = Some 2\<rparr>"
    unfolding formatFinal_Array option.case sl
    by (simp add: getClosedPrime_def isPrimeColor_iff to_double_exact)
  have h: "(0::int) \<le> 2" by simp
  show ?thesis
    using closedPrimaryCount_of_final_slice [OF h, where c = 1 and rs = "[rec1, rec3, rec3]"]
    unfolding ev by simp
qed


subsection \<open>Orchestration\<close>

text \<open>
  Claim C8. Whatever the path, the transport and the options, the promise returned by
  \<^verbatim>\<open>retrieve\<close> is never rejected. On every failure of the chain it resolves with
  \<^verbatim>\<open>undefined\<close> and one diagnostic line is logged: when the transport rejects, when the
  status is outside \<open>[200, 300)\<close> (\<^verbatim>\<open>verifyStatus\<close> throws an \<^verbatim>\<open>Error\<close> whose message is
  the status text of the response), when parsing the body rejects, and when
  \<^verbatim>\<open>formatFinal\<close> throws.
\<close>

theorem retrieve_swallows_failures:
  fixes path :: string and fetch :: "uri \<Rightarrow> response promise" and options' :: "opts option"
  defines "options \<equiv> (case options' of
                         None \<Rightarrow> \<lparr>limit = None, colors = None, page = None\<rparr>
                       | Some opt \<Rightarrow> opt)"
  defines "url \<equiv> buildUrl path options"
  defines "curPage \<equiv> (case page options of None \<Rightarrow> 1 | Some p \<Rightarrow> if p = 0 then 1 else p)"
  defines "diagnostic \<equiv> (\<lambda>error. ''An error occurred during the request. '' @ toString error)"
  shows
    "(\<forall>e. fst (retrieve path fetch options') \<noteq> Rejected e)
   \<and> (fetch url = Rejected e \<longrightarrow>
        retrieve path fetch options' = (Resolved None, [diagnostic e]))
   \<and> (fetch url = Resolved resp \<and> \<not> (200 \<le> status resp \<and> status resp < 300) \<longrightarrow>
        verifyStatus resp = Rejected (JsError ''Error'' (statusText resp))
      \<and> retrieve path fetch options'
          = (Resolved None, [diagnostic (JsError ''Error'' (statusText resp))]))
   \<and> (fetch url = Resolved resp \<and> 200 \<le> status resp \<and> status resp < 300
        \<and> json resp = Rejected e \<longrightarrow>
        retrieve path fetch options' = (Resolved None, [diagnostic e]))
   \<and> (fetch url = Resolved resp \<and> 200 \<le> status resp \<and> status resp < 300
        \<and> json resp = Resolved body \<and> formatFinal curPage (Some 10) body = Inl e \<longrightarrow>
        retrieve path fetch options' = (Resolved None, [diagnostic e]))"
proof (intro conjI allI impI)
  fix e'
  show "fst (retrieve path fetch options') \<noteq> Rejected e'"
    unfolding retrieve_eq by (simp split: promise.split)
next
  assume "fetch url = Rejected e"
  then show "retrieve path fetch options' = (Resolved None, [diagnostic e])"
    unfolding retrieve_eq getRecords_eq andThen_def url_def options_def diagnostic_def
    by simp
next
  assume "fetch url = Resolved resp \<and> \<not> (200 \<le> status resp \<and> status resp < 300)"
  then show "verifyStatus resp = Rejected (JsError ''Error'' (statusText resp))"
    by (auto simp add: verifyStatus_def)
next
  assume "fetch url = Resolved resp \<and> \<not> (200 \<le> status resp \<and> status resp < 300)"
  then show "retrieve path fetch options'
      = (Resolved None, [diagnostic (JsError ''Error'' (statusText resp))])"
    unfolding retrieve_eq getRecords_eq andThen_def url_def options_def diagnostic_def
    by auto
next
  assume "fetch url = Resolved resp \<and> 200 \<le> status resp \<and> status resp < 300
        \<and> json resp = Rejected e"
  then show "retrieve path fetch options' = (Resolved None, [diagnostic e])"
    unfolding retrieve_eq getRecords_eq andThen_def url_def options_def diagnostic_def
    by simp
next
  assume "fetch url = Resolved resp \<and> 200 \<le> status resp \<and> status resp < 300
        \<and> json resp = Resolved body \<and> formatFinal curPage (Some 10) body = Inl e"
  then show "retrieve path fetch options' = (Resolved None, [diagnostic e])"
    unfolding retrieve_eq getRecords_eq andThen_def url_def options_def diagnostic_def
      curPage_def retrievePromise_def
    by (simp add: formatFinal_default)
qed

theorem retrieve_swallows_failures_witness:
  "retrieve ''http://localhost:3000/records''
      (\<lambda>u. Rejected (JsError ''TypeError'' ''Failed to fetch'')) None
     = (Resolved None, [''An error occurred during the request. TypeError: Failed to fetch''])
   \<and> retrieve ''http://localhost:3000/records''
      (\<lambda>u. Resolved \<lparr>status = 404, statusText = ''Not Found'', json = Resolved (Array [rec1])\<rparr>)
      (Some \<lparr>limit = None, colors = Some [''red''], page = Some 2\<rparr>)
     = (Resolved None, [''An error occurred during the request. Error: Not Found''])
   \<and> retrieve ''http://localhost:3000/records''
      (\<lambda>u. Resolved \<lparr>status = 200, statusText = ''OK'', json = Resolved Null\<rparr>) None
     = (Resolved None,
        [''An error occurred during the request. TypeError: Cannot read properties of null (reading 'length')''])"
proof -
  have a: "retrieve ''http://localhost:3000/records''
      (\<lambda>u. Rejected (JsError ''TypeError'' ''Failed to fetch'')) None
     = (Resolved None, [''An error occurred during the request. TypeError: Failed to fetch''])"
    using retrieve_swallows_failures [where path = "''http://localhost:3000/records''"
        and fetch = "\<lambda>u. Rejected (JsError ''TypeError'' ''Failed to fetch'')"
        and options' = None and e = "JsError ''TypeError'' ''Failed to fetch''"]
    by (simp add: toString_def)
  have b: "retrieve ''http://localhost:3000/records''
      (\<lambda>u. Resolved \<lparr>status = 404, statusText = ''Not Found'', json = Resolved (Array [rec1])\<rparr>)
      (Some \<lparr>limit = None, colors = Some [''red''], page = Some 2\<rparr>)
     = (Resolved None, [''An error occurred during the request. Error: Not Found''])"
    using retrieve_swallows_failures [where path = "''http://localhost:3000/records''"
        and fetch = "\<lambda>u. Resolved \<lparr>status = 404, statusText = ''Not Found'',
                                    json = Resolved (Array [rec1])\<rparr>"
        and options' = "Some \<lparr>limit = None, colors = Some [''red''], page = Some 2\<rparr>"
        and resp = "\<lparr>status = 404, statusText = ''Not Found'', json = Resolved (Array [rec1])\<rparr>"]
    by (simp add: toString_def)
  have c: "retrieve ''http://localhost:3000/records''
      (\<lambda>u. Resolved \<lparr>status = 200, statusText = ''OK'', json = Resolved Null\<rparr>) None
     = (Resolved None,
        [''An error occurred during the request. TypeError: Cannot read properties of null (reading 'length')''])"
    using retrieve_swallows_failures [where path = "''http://localhost:3000/records''"
        and fetch = "\<lambda>u. Resolved \<lparr>status = 200, statusText = ''OK'', json = Resolved Null\<rparr>"
        and options' = None
        and resp = "\<lparr>status = 200, statusText = ''OK'', json = Resolved Null\<rparr>"
        and body = Null
        and e = "JsError ''TypeError'' ''Cannot read properties of null (reading 'length')''"]
    by (simp add: toString_def formatFinal_Null)
  from a b c show ?thesis by (intro conjI)
qed


text \<open>
  Claim C10. The colors of the options reach the query parameter \<^verbatim>\<open>color[]\<close> and nothing
  else: two calls whose options differ in the colors only, and whose requests the
  transport answers alike, return the same. On a successful response the ids, the open
  records and the count of closed primary records are taken from the first 10 records
  as they were returned, with no test of a color against the requested colors; so a
  record whose color is not among the requested ones still has its id in \<open>ids\<close>, is in
  \<open>open\<close> (annotated) when its disposition is \<open>open\<close>, and is counted in
  \<open>closedPrimaryCount\<close> when it is closed and of a primary color.
\<close>

theorem colors_only_in_url:
  "q_color (search (buildUrl path options))
      = (case colors options of None \<Rightarrow> defaults_colors | Some cs \<Rightarrow> cs)
   \<and> (fetch (buildUrl path (options\<lparr>colors := cs'\<rparr>)) = fetch (buildUrl path options) \<longrightarrow>
        retrieve path fetch (Some (options\<lparr>colors := cs'\<rparr>))
          = retrieve path fetch (Some options))
   \<and> (fetch (buildUrl path options) = Resolved resp
        \<and> 200 \<le> status resp \<and> status resp < 300 \<and> json resp = Resolved (Array rs) \<longrightarrow>
        (\<exists>out. retrieve path fetch (Some options) = (Resolved (Some out), [])
           \<and> ids out = map id_rec (take 10 rs)
           \<and> open_recs out =
               map (\<lambda>r. r\<lparr>isPrimary := Some (color r \<in> {''red'', ''blue'', ''yellow''})\<rparr>)
                 (filter (\<lambda>r. disposition r = ''open'') (take 10 rs))
           \<and> closedPrimaryCount out =
               length (filter (\<lambda>r. disposition r = ''closed''
                                   \<and> color r \<in> {''red'', ''blue'', ''yellow''}) (take 10 rs))
           \<and> previousPage out =
               (case page options of None \<Rightarrow> None
                | Some p \<Rightarrow> if p = 0 \<or> p = 1 then None else Some (to_double (p - 1)))
           \<and> nextPage out =
               (if int (length rs) \<le> 10 then None
                else Some (to_double ((case page options of None \<Rightarrow> 1
                                       | Some p \<Rightarrow> if p = 0 then 1 else p) + 1)))
           \<and> (\<forall>r \<in> set (take 10 rs).
                 color r \<notin> set (q_color (search (buildUrl path options))) \<longrightarrow>
                   id_rec r \<in> set (ids out)
                 \<and> (disposition r = ''open'' \<longrightarrow>
                      r\<lparr>isPrimary := Some (color r \<in> {''red'', ''blue'', ''yellow''})\<rparr>
                        \<in> set (open_recs out))
                 \<and> (disposition r = ''closed'' \<and> color r \<in> {''red'', ''blue'', ''yellow''} \<longrightarrow>
                      0 < closedPrimaryCount out))))"
proof (intro conjI impI)
  show "q_color (search (buildUrl path options))
      = (case colors options of None \<Rightarrow> defaults_colors | Some cs \<Rightarrow> cs)"
    by (simp add: buildUrl_def buildUrlOpts_def Let_def)
next
  assume "fetch (buildUrl path (options\<lparr>colors := cs'\<rparr>)) = fetch (buildUrl path options)"
  then show "retrieve path fetch (Some (options\<lparr>colors := cs'\<rparr>))
          = retrieve path fetch (Some options)"
    unfolding retrieve_eq getRecords_eq by simp
next
  let ?c = "case page options of None \<Rightarrow> 1 | Some p \<Rightarrow> if p = 0 then 1 else p"
  let ?P = "\<lambda>r. disposition r = ''closed'' \<and> color r \<in> {''red'', ''blue'', ''yellow''}"
  let ?out = "\<lparr>ids = map id_rec (take 10 rs),
      open_recs = map (\<lambda>r. r\<lparr>isPrimary := Some (color r \<in> {''red'', ''blue'', ''yellow''})\<rparr>)
                 (filter (\<lambda>r. disposition r = ''open'') (take 10 rs)),
      closedPrimaryCount = length (filter ?P (take 10 rs)),
      previousPage = (if ?c = 1 then None else Some (to_double (?c - 1))),
      nextPage = (if int (length rs) \<le> 10 then None else Some (to_double (?c + 1)))\<rparr>"
  assume ok: "fetch (buildUrl path options) = Resolved resp
        \<and> 200 \<le> status resp \<and> status resp < 300 \<and> json resp = Resolved (Array rs)"
  have fin: "formatFinal ?c (Some 10) (Array rs) = Inr ?out"
    by (simp add: formatFinal_Array slice_nonneg getClosedPrime_def isPrimeColor_iff)
  have ret: "retrieve path fetch (Some options) = (Resolved (Some ?out), [])"
    using ok unfolding retrieve_eq getRecords_eq andThen_def retrievePromise_def
    by (simp add: fin)
  have cnt: "\<And>r. r \<in> set (take 10 rs) \<Longrightarrow> ?P r \<Longrightarrow> 0 < length (filter ?P (take 10 rs))"
    by (simp add: filter_empty_conv) blast
  have mem: "\<forall>r \<in> set (take 10 rs).
                 color r \<notin> set (q_color (search (buildUrl path options))) \<longrightarrow>
                   id_rec r \<in> set (ids ?out)
                 \<and> (disposition r = ''open'' \<longrightarrow>
                      r\<lparr>isPrimary := Some (color r \<in> {''red'', ''blue'', ''yellow''})\<rparr>
                        \<in> set (open_recs ?out))
                 \<and> (?P r \<longrightarrow> 0 < closedPrimaryCount ?out)"
    using cnt by auto
  show "\<exists>out. retrieve path fetch (Some options) = (Resolved (Some out), [])
           \<and> ids out = map id_rec (take 10 rs)
           \<and> open_recs out =
               map (\<lambda>r. r\<lparr>isPrimary := Some (color r \<in> {''red'', ''blue'', ''yellow''})\<rparr>)
                 (filter (\<lambda>r. disposition r = ''open'') (take 10 rs))
           \<and> closedPrimaryCount out = length (filter ?P (take 10 rs))
           \<and> previousPage out =
               (case page options of None \<Rightarrow> None
                | Some p \<Rightarrow> if p = 0 \<or> p = 1 then None else Some (to_double (p - 1)))
           \<and> nextPage out = (if int (length rs) \<le> 10 then None else Some (to_double (?c + 1)))
           \<and> (\<forall>r \<in> set (take 10 rs).
                 color r \<notin> set (q_color (search (buildUrl path options))) \<longrightarrow>
                   id_rec r \<in> set (ids out)
                 \<and> (disposition r = ''open'' \<longrightarrow>
                      r\<lparr>isPrimary := Some (color r \<in> {''red'', ''blue'', ''yellow''})\<rparr>
                        \<in> set (open_recs out))
                 \<and> (?P r \<longrightarrow> 0 < closedPrimaryCount out))"
    using ret mem by (intro exI [of _ ?out]) (simp split: option.split)
qed


theorem colors_only_in_url_witness:
  "retrieve ''http://localhost:3000/records''
      (\<lambda>u. Resolved \<lparr>status = 200, statusText = ''OK'',
                        json = Resolved (Array [rec1, rec2, rec3, rec4])\<rparr>)
      (Some \<lparr>limit = None, colors = Some [''red''], page = Some 2\<rparr>)
     = (Resolved (Some \<lparr>ids = [1, 2, 3, 4],
                        open_recs = [rec1\<lparr>isPrimary := Some True\<rparr>,
                                     rec4\<lparr>isPrimary := Some False\<rparr>],
                        closedPrimaryCount = 1,
                        previousPage = Some 1, nextPage = None\<rparr>), [])"
proof -
  let ?resp = "\<lparr>status = 200, statusText = ''OK'',
                json = Resolved (Array [rec1, rec2, rec3, rec4])\<rparr>"
  let ?options = "\<lparr>limit = None, colors = Some [''red''], page = Some 2\<rparr>"
  let ?r = "retrieve ''http://localhost:3000/records'' (\<lambda>u. Resolved ?resp) (Some ?options)"
  note t = colors_only_in_url [where path = "''http://localhost:3000/records''"
      and fetch = "\<lambda>u. Resolved ?resp" and options = ?options and resp = ?resp
      and rs = "[rec1, rec2, rec3, rec4]", THEN conjunct2, THEN conjunct2]
  have "\<exists>out. ?r = (Resolved (Some out), [])
      \<and> ids out = [1, 2, 3, 4]
      \<and> open_recs out = [rec1\<lparr>isPrimary := Some True\<rparr>, rec4\<lparr>isPrimary := Some False\<rparr>]
      \<and> closedPrimaryCount out = 1
      \<and> previousPage out = Some 1 \<and> nextPage out = None"
    using t by (simp add: to_double_exact) blast
  then obtain out where r: "?r = (Resolved (Some out), [])"
      and f: "ids out = [1, 2, 3, 4]"
        "open_recs out = [rec1\<lparr>isPrimary := Some True\<rparr>, rec4\<lparr>isPrimary := Some False\<rparr>]"
        "closedPrimaryCount out = 1" "previousPage out = Some 1" "nextPage out = None"
    by blast
  from f have "out = \<lparr>ids = [1, 2, 3, 4],
                        open_recs = [rec1\<lparr>isPrimary := Some True\<rparr>,
                                     rec4\<lparr>isPrimary := Some False\<rparr>],
                        closedPrimaryCount = 1,
                        previousPage = Some 1, nextPage = None\<rparr>"
    by (cases out) simp
  with r show ?thesis by simp
qed


end
